theory Spec2Isabelle
  imports Complex_Main
begin

section \<open>Exemplar reservoirs of the metrics SDK\<close>

text \<open>
  A shallow embedding of \<^verbatim>\<open>exemplar_reservoir.py\<close>. Every method takes the object it is
  called on and returns the object as the call leaves it, paired with the outcome of the
  call: \<open>Inl\<close> the exception raised, \<open>Inr\<close> the value returned. The object is returned on
  both outcomes, because a Python object keeps the mutations made before an exception.

  Measurement values (\<^verbatim>\<open>Union[int, float]\<close>) and histogram boundaries are modelled as
  \<open>real\<close>, timestamps and sizes as \<open>int\<close> (Python's unbounded integers).
\<close>

datatype error = TypeError | ValueError | IndexError

subsection \<open>Collaborators: attributes, spans, exemplars\<close>

text \<open>
  \<^verbatim>\<open>Attributes\<close> is \<^verbatim>\<open>Optional[Mapping[str, AttributeValue]]\<close>. A mapping is kept as the list
  of its items in iteration order; \<open>None\<close> is the absent mapping.
\<close>

datatype AttributeValue = AStr string | ABool bool | AInt int | AFloat real

type_synonym Attributes = "(string \<times> AttributeValue) list option"

definition attribute_items :: "Attributes \<Rightarrow> (string \<times> AttributeValue) list" where
  "attribute_items a = (case a of None \<Rightarrow> [] | Some kvs \<Rightarrow> kvs)"

definition attribute_keys :: "Attributes \<Rightarrow> string set" where
  "attribute_keys a = fst ` set (attribute_items a)"

text \<open>Python truthiness of an \<^verbatim>\<open>Attributes\<close> value: \<^verbatim>\<open>None\<close> and the empty mapping are false.\<close>

definition truthy :: "Attributes \<Rightarrow> bool" where
  "truthy a = (case a of None \<Rightarrow> False | Some kvs \<Rightarrow> kvs \<noteq> [])"

text \<open>
  The comprehension \<^verbatim>\<open>{k: v for k, v in attrs.items() if k not in point_attributes}\<close>.
  The test \<^verbatim>\<open>k not in None\<close> raises \<^verbatim>\<open>TypeError\<close>; it is evaluated as soon as there is a
  first item.
\<close>

definition filter_items ::
  "(string \<times> AttributeValue) list \<Rightarrow> Attributes \<Rightarrow> error + (string \<times> AttributeValue) list" where
  "filter_items kvs point_attributes =
     (case point_attributes of
        None \<Rightarrow> (if kvs = [] then Inr [] else Inl TypeError)
      | Some pkvs \<Rightarrow> Inr (filter (\<lambda>(k, v). k \<notin> fst ` set pkvs) kvs))"

text \<open>
  Modelled from the spec: the active-span accessor \<^verbatim>\<open>trace.get_current_span\<close> and the span
  types of the tracing API, which are not part of the source at hand. A context holds the
  active span or none; the accessor returns the sentinel \<open>INVALID_SPAN\<close> when there is none.
\<close>

datatype SpanContext = SpanContext (span_id: int) (trace_id: int)

datatype Span = INVALID_SPAN | Span (get_span_context: SpanContext)

datatype Context = Context "Span option"

fun get_current_span :: "Context \<Rightarrow> Span" where
  "get_current_span (Context None) = INVALID_SPAN"
| "get_current_span (Context (Some s)) = s"

text \<open>
  Modelled from the spec: the \<^verbatim>\<open>Exemplar\<close> value object of \<^verbatim>\<open>exemplar.py\<close>, with its five
  fields in the order the constructor call passes them.
\<close>

record Exemplar =
  e_filtered_attributes :: Attributes
  e_value :: real
  e_time_unix_nano :: int
  e_span_id :: "int option"
  e_trace_id :: "int option"

subsection \<open>ExemplarBucket\<close>

record ExemplarBucket =
  b_value :: real
  b_attributes :: Attributes
  b_time_unix_nano :: int
  b_span_id :: "int option"
  b_trace_id :: "int option"
  b_offered :: bool

definition ExemplarBucket_init :: ExemplarBucket where
  "ExemplarBucket_init =
     \<lparr>b_value = 0, b_attributes = None, b_time_unix_nano = 0,
      b_span_id = None, b_trace_id = None, b_offered = False\<rparr>"

definition ExemplarBucket_offer ::
  "ExemplarBucket \<Rightarrow> real \<Rightarrow> int \<Rightarrow> Attributes \<Rightarrow> Context \<Rightarrow> ExemplarBucket" where
  "ExemplarBucket_offer self val time_unix_nano attributes ctx =
     (let self1 = self\<lparr>b_value := val, b_time_unix_nano := time_unix_nano,
                       b_attributes := attributes\<rparr>;
          span = get_current_span ctx;
          self2 = (if span \<noteq> INVALID_SPAN
                   then self1\<lparr>b_span_id := Some (span_id (get_span_context span)),
                              b_trace_id := Some (trace_id (get_span_context span))\<rparr>
                   else self1)
      in self2\<lparr>b_offered := True\<rparr>)"

definition ExemplarBucket_reset :: "ExemplarBucket \<Rightarrow> ExemplarBucket" where
  "ExemplarBucket_reset self =
     self\<lparr>b_value := 0, b_attributes := Some [], b_time_unix_nano := 0,
          b_span_id := None, b_trace_id := None, b_offered := False\<rparr>"

definition ExemplarBucket_collect ::
  "ExemplarBucket \<Rightarrow> Attributes \<Rightarrow> ExemplarBucket \<times> (error + Exemplar option)" where
  "ExemplarBucket_collect self point_attributes =
     (if \<not> b_offered self then (self, Inr None)
      else
        case (if truthy (b_attributes self)
              then map_sum id Some (filter_items (attribute_items (b_attributes self)) point_attributes)
              else Inr None) of
          Inl e \<Rightarrow> (self, Inl e)
        | Inr filtered_attributes \<Rightarrow>
            (ExemplarBucket_reset self,
             Inr (Some \<lparr>e_filtered_attributes = filtered_attributes,
                        e_value = b_value self,
                        e_time_unix_nano = b_time_unix_nano self,
                        e_span_id = b_span_id self,
                        e_trace_id = b_trace_id self\<rparr>)))"

subsection \<open>FixedSizeExemplarReservoirABC\<close>

record FixedSizeExemplarReservoirABC =
  r_size :: int
  reservoir_storage :: "ExemplarBucket list"

text \<open>
  \<^verbatim>\<open>__init__(self, size, **kwargs)\<close> passes its keyword arguments up to
  \<^verbatim>\<open>object.__init__\<close>, which raises \<^verbatim>\<open>TypeError\<close> when there are any. The size itself is not
  examined: \<^verbatim>\<open>range(size)\<close> is empty for a size of zero or less.
\<close>

definition FixedSizeExemplarReservoirABC_init ::
  "int \<Rightarrow> string list \<Rightarrow> error + FixedSizeExemplarReservoirABC" where
  "FixedSizeExemplarReservoirABC_init sz kwargs =
     (if kwargs \<noteq> [] then Inl TypeError
      else Inr \<lparr>r_size = sz, reservoir_storage = replicate (nat sz) ExemplarBucket_init\<rparr>)"

definition maxSize :: "'a FixedSizeExemplarReservoirABC_scheme \<Rightarrow> int" where
  "maxSize self = r_size self"

text \<open>
  The traversal that \<^verbatim>\<open>[*exemplars]\<close> drives through the lazy \<^verbatim>\<open>filter\<close> and \<^verbatim>\<open>map\<close>: each
  bucket is collected in index order, a \<^verbatim>\<open>None\<close> is dropped, and an exception stops the
  traversal with the earlier buckets already cleared.
\<close>

fun collect_storage ::
  "ExemplarBucket list \<Rightarrow> Attributes \<Rightarrow> ExemplarBucket list \<times> (error + Exemplar list)" where
  "collect_storage [] point_attributes = ([], Inr [])"
| "collect_storage (bucket # rest) point_attributes =
     (case ExemplarBucket_collect bucket point_attributes of
        (bucket1, Inl e) \<Rightarrow> (bucket1 # rest, Inl e)
      | (bucket1, Inr r) \<Rightarrow>
          (case collect_storage rest point_attributes of
             (rest1, Inl e) \<Rightarrow> (bucket1 # rest1, Inl e)
           | (rest1, Inr exemplars) \<Rightarrow>
               (bucket1 # rest1,
                Inr (case r of None \<Rightarrow> exemplars | Some e \<Rightarrow> e # exemplars))))"

definition FixedSizeExemplarReservoirABC_reset ::
  "'a FixedSizeExemplarReservoirABC_scheme \<Rightarrow> 'a FixedSizeExemplarReservoirABC_scheme" where
  "FixedSizeExemplarReservoirABC_reset self = self"

text \<open>
  \<^verbatim>\<open>collect\<close> builds the lazy iterator, calls the \<^verbatim>\<open>_reset\<close> hook of the concrete class
  (passed here as \<open>reset\<close>), and only then runs the traversal.
\<close>

definition FixedSizeExemplarReservoirABC_collect ::
  "('a FixedSizeExemplarReservoirABC_scheme \<Rightarrow> 'a FixedSizeExemplarReservoirABC_scheme) \<Rightarrow>
   'a FixedSizeExemplarReservoirABC_scheme \<Rightarrow> Attributes \<Rightarrow>
   'a FixedSizeExemplarReservoirABC_scheme \<times> (error + Exemplar list)" where
  "FixedSizeExemplarReservoirABC_collect reset self point_attributes =
     (let self1 = reset self
      in case collect_storage (reservoir_storage self1) point_attributes of
           (storage1, res) \<Rightarrow> (self1\<lparr>reservoir_storage := storage1\<rparr>, res))"

text \<open>
  \<^verbatim>\<open>self._reservoir_storage[index].offer(...)\<close>: Python list indexing (a negative index
  counts from the end, an index out of range raises \<^verbatim>\<open>IndexError\<close>), then the bucket is
  updated in place.
\<close>

definition storage_offer ::
  "ExemplarBucket list \<Rightarrow> int \<Rightarrow> real \<Rightarrow> int \<Rightarrow> Attributes \<Rightarrow> Context \<Rightarrow>
   ExemplarBucket list \<times> (error + unit)" where
  "storage_offer storage index val time_unix_nano attributes ctx =
     (let n = int (length storage);
          j = (if index < 0 then n + index else index)
      in if 0 \<le> j \<and> j < n
         then (storage[nat j := ExemplarBucket_offer (storage ! nat j) val time_unix_nano attributes ctx],
               Inr ())
         else (storage, Inl IndexError))"

subsection \<open>SimpleFixedSizeExemplarReservoir\<close>

record SimpleFixedSizeExemplarReservoir = FixedSizeExemplarReservoirABC +
  measurements_seen :: int

definition SimpleFixedSizeExemplarReservoir_init ::
  "int \<Rightarrow> string list \<Rightarrow> error + SimpleFixedSizeExemplarReservoir" where
  "SimpleFixedSizeExemplarReservoir_init sz kwargs =
     (case FixedSizeExemplarReservoirABC_init sz kwargs of
        Inl e \<Rightarrow> Inl e
      | Inr base \<Rightarrow>
          Inr \<lparr>r_size = r_size base, reservoir_storage = reservoir_storage base,
               measurements_seen = 0\<rparr>)"

definition SimpleFixedSizeExemplarReservoir_reset ::
  "SimpleFixedSizeExemplarReservoir \<Rightarrow> SimpleFixedSizeExemplarReservoir" where
  "SimpleFixedSizeExemplarReservoir_reset self =
     (FixedSizeExemplarReservoirABC_reset self)\<lparr>measurements_seen := 0\<rparr>"

text \<open>
  \<^verbatim>\<open>random.randrange(start, stop)\<close>: \<^verbatim>\<open>ValueError\<close> on an empty range, otherwise an integer
  of \<open>[start, stop)\<close>. The random source is the argument \<open>entropy\<close>, so that every integer of
  the range is the result for some entropy.
\<close>

definition randrange :: "int \<Rightarrow> int \<Rightarrow> nat \<Rightarrow> error + int" where
  "randrange start stop entropy =
     (if stop - start > 0 then Inr (start + int entropy mod (stop - start))
      else Inl ValueError)"

definition SimpleFixedSizeExemplarReservoir_find_bucket_index ::
  "SimpleFixedSizeExemplarReservoir \<Rightarrow> nat \<Rightarrow>
   SimpleFixedSizeExemplarReservoir \<times> (error + int)" where
  "SimpleFixedSizeExemplarReservoir_find_bucket_index self entropy =
     (if measurements_seen self < r_size self then (self, Inr (measurements_seen self))
      else
        case randrange 0 (measurements_seen self) entropy of
          Inl e \<Rightarrow> (self, Inl e)
        | Inr index \<Rightarrow>
            (self\<lparr>measurements_seen := measurements_seen self + 1\<rparr>,
             Inr (if index < r_size self then index else - 1)))"

definition SimpleFixedSizeExemplarReservoir_offer ::
  "SimpleFixedSizeExemplarReservoir \<Rightarrow> real \<Rightarrow> int \<Rightarrow> Attributes \<Rightarrow> Context \<Rightarrow> nat \<Rightarrow>
   SimpleFixedSizeExemplarReservoir \<times> (error + unit)" where
  "SimpleFixedSizeExemplarReservoir_offer self val time_unix_nano attributes ctx entropy =
     (case SimpleFixedSizeExemplarReservoir_find_bucket_index self entropy of
        (self1, Inl e) \<Rightarrow> (self1, Inl e)
      | (self1, Inr index) \<Rightarrow>
          if index \<noteq> - 1
          then (case storage_offer (reservoir_storage self1) index val time_unix_nano attributes ctx of
                  (storage1, res) \<Rightarrow> (self1\<lparr>reservoir_storage := storage1\<rparr>, res))
          else (self1, Inr ()))"

definition SimpleFixedSizeExemplarReservoir_collect ::
  "SimpleFixedSizeExemplarReservoir \<Rightarrow> Attributes \<Rightarrow>
   SimpleFixedSizeExemplarReservoir \<times> (error + Exemplar list)" where
  "SimpleFixedSizeExemplarReservoir_collect =
     FixedSizeExemplarReservoirABC_collect SimpleFixedSizeExemplarReservoir_reset"

subsection \<open>AlignedHistogramBucketExemplarReservoir\<close>

record AlignedHistogramBucketExemplarReservoir = FixedSizeExemplarReservoirABC +
  boundaries :: "real list"

definition AlignedHistogramBucketExemplarReservoir_init ::
  "real list \<Rightarrow> string list \<Rightarrow> error + AlignedHistogramBucketExemplarReservoir" where
  "AlignedHistogramBucketExemplarReservoir_init bounds kwargs =
     (case FixedSizeExemplarReservoirABC_init (int (length bounds) + 1) kwargs of
        Inl e \<Rightarrow> Inl e
      | Inr base \<Rightarrow>
          Inr \<lparr>r_size = r_size base, reservoir_storage = reservoir_storage base,
               boundaries = bounds\<rparr>)"

text \<open>
  The loop \<^verbatim>\<open>for i, boundary in enumerate(self._boundaries)\<close> with its early return; \<open>None\<close>
  when the loop runs to its end.
\<close>

fun first_boundary :: "(nat \<times> real) list \<Rightarrow> real \<Rightarrow> nat option" where
  "first_boundary [] val = None"
| "first_boundary ((i, boundary) # rest) val =
     (if val \<le> boundary then Some i else first_boundary rest val)"

definition AlignedHistogramBucketExemplarReservoir_find_bucket_index ::
  "AlignedHistogramBucketExemplarReservoir \<Rightarrow> real \<Rightarrow> int" where
  "AlignedHistogramBucketExemplarReservoir_find_bucket_index self val =
     (case first_boundary (enumerate 0 (boundaries self)) val of
        Some i \<Rightarrow> int i
      | None \<Rightarrow> int (length (boundaries self)))"

definition AlignedHistogramBucketExemplarReservoir_offer ::
  "AlignedHistogramBucketExemplarReservoir \<Rightarrow> real \<Rightarrow> int \<Rightarrow> Attributes \<Rightarrow> Context \<Rightarrow>
   AlignedHistogramBucketExemplarReservoir \<times> (error + unit)" where
  "AlignedHistogramBucketExemplarReservoir_offer self val time_unix_nano attributes ctx =
     (let index = AlignedHistogramBucketExemplarReservoir_find_bucket_index self val
      in case storage_offer (reservoir_storage self) index val time_unix_nano attributes ctx of
           (storage1, res) \<Rightarrow> (self\<lparr>reservoir_storage := storage1\<rparr>, res))"

definition AlignedHistogramBucketExemplarReservoir_collect ::
  "AlignedHistogramBucketExemplarReservoir \<Rightarrow> Attributes \<Rightarrow>
   AlignedHistogramBucketExemplarReservoir \<times> (error + Exemplar list)" where
  "AlignedHistogramBucketExemplarReservoir_collect =
     FixedSizeExemplarReservoirABC_collect FixedSizeExemplarReservoirABC_reset"

subsection \<open>Reachable reservoirs\<close>

text \<open>
  The states a reservoir can be in: the one its constructor returns, and the one any call of
  \<^verbatim>\<open>offer\<close> or \<^verbatim>\<open>collect\<close> leaves behind, whether the call returned or raised.
\<close>

inductive simple_reachable :: "SimpleFixedSizeExemplarReservoir \<Rightarrow> bool" where
  simple_init: "SimpleFixedSizeExemplarReservoir_init sz kwargs = Inr self \<Longrightarrow> simple_reachable self"
| simple_offer: "simple_reachable self \<Longrightarrow>
     simple_reachable (fst (SimpleFixedSizeExemplarReservoir_offer self val t a ctx entropy))"
| simple_collect: "simple_reachable self \<Longrightarrow>
     simple_reachable (fst (SimpleFixedSizeExemplarReservoir_collect self point_attributes))"

inductive aligned_reachable :: "AlignedHistogramBucketExemplarReservoir \<Rightarrow> bool" where
  aligned_init: "AlignedHistogramBucketExemplarReservoir_init bounds kwargs = Inr self \<Longrightarrow>
     aligned_reachable self"
| aligned_offer: "aligned_reachable self \<Longrightarrow>
     aligned_reachable (fst (AlignedHistogramBucketExemplarReservoir_offer self val t a ctx))"
| aligned_collect: "aligned_reachable self \<Longrightarrow>
     aligned_reachable (fst (AlignedHistogramBucketExemplarReservoir_collect self point_attributes))"

section \<open>Collecting a bucket and a storage\<close>

lemma bucket_collect_cases:
  "ExemplarBucket_collect b pa = (b, Inr None) \<and> \<not> b_offered b \<or>
   ExemplarBucket_collect b pa = (b, Inl TypeError) \<and> b_offered b \<and> truthy (b_attributes b) \<and> pa = None \<or>
   (\<exists>e. ExemplarBucket_collect b pa = (ExemplarBucket_reset b, Inr (Some e)) \<and> b_offered b)"
  by (auto simp: ExemplarBucket_collect_def filter_items_def truthy_def attribute_items_def
      split: option.splits)

lemma bucket_collect_empties:
  "ExemplarBucket_collect b pa = (b1, Inr r) \<Longrightarrow> \<not> b_offered b1"
  using bucket_collect_cases [of b pa] by (auto simp: ExemplarBucket_reset_def)

lemma bucket_collect_not_offered:
  "\<not> b_offered b \<Longrightarrow> ExemplarBucket_collect b pa = (b, Inr None)"
  by (simp add: ExemplarBucket_collect_def)

lemma bucket_collect_mapping_returns:
  "\<exists>b1 r. ExemplarBucket_collect b (Some m) = (b1, Inr r)"
  using bucket_collect_cases [of b "Some m"] by auto

lemma bucket_collect_filtered:
  assumes "ExemplarBucket_collect b pa = (b1, Inr (Some e))"
  shows "attribute_keys (e_filtered_attributes e) \<inter> attribute_keys pa = {}"
    and "attribute_items (e_filtered_attributes e) =
      filter (\<lambda>(k, v). k \<notin> attribute_keys pa) (attribute_items (b_attributes b))"
    and "b_offered b"
  using assms
  by (force simp: ExemplarBucket_collect_def filter_items_def truthy_def attribute_items_def
      attribute_keys_def split: option.splits if_splits)+

lemma collect_storage_length:
  "length (fst (collect_storage bs pa)) = length bs"
  by (induction bs) (auto split: prod.splits sum.splits)

lemma collect_storage_empties:
  "collect_storage bs pa = (bs1, Inr exs) \<Longrightarrow>
   (\<forall>b \<in> set bs1. \<not> b_offered b) \<and> length exs \<le> length bs"
proof (induction bs arbitrary: bs1 exs)
  case Nil
  then show ?case by simp
next
  case (Cons b bs)
  then show ?case
    by (auto split: prod.splits sum.splits option.splits dest: bucket_collect_empties)
qed

lemma collect_storage_all_empty:
  "\<forall>b \<in> set bs. \<not> b_offered b \<Longrightarrow> collect_storage bs pa = (bs, Inr [])"
  by (induction bs) (auto simp: bucket_collect_not_offered)

lemma collect_storage_mapping_returns:
  "\<exists>bs1 exs. collect_storage bs (Some m) = (bs1, Inr exs)"
proof (induction bs)
  case Nil
  then show ?case by simp
next
  case (Cons b bs)
  then show ?case
    using bucket_collect_mapping_returns [of b m] by (auto split: option.splits)
qed

lemma collect_storage_origin:
  "collect_storage bs pa = (bs1, Inr exs) \<Longrightarrow> e \<in> set exs \<Longrightarrow>
   \<exists>b \<in> set bs. \<exists>b1. ExemplarBucket_collect b pa = (b1, Inr (Some e))"
proof (induction bs arbitrary: bs1 exs)
  case Nil
  then show ?case by simp
next
  case (Cons b bs)
  then show ?case
    by (fastforce split: prod.splits sum.splits option.splits)
qed

section \<open>Reservoir operations and reachable states\<close>

lemma storage_offer_length:
  "length (fst (storage_offer bs i val t a ctx)) = length bs"
  by (simp add: storage_offer_def Let_def)

lemma simple_collect_eq:
  "SimpleFixedSizeExemplarReservoir_collect self pa =
     (self\<lparr>measurements_seen := 0,
           reservoir_storage := fst (collect_storage (reservoir_storage self) pa)\<rparr>,
      snd (collect_storage (reservoir_storage self) pa))"
  by (simp add: SimpleFixedSizeExemplarReservoir_collect_def
      FixedSizeExemplarReservoirABC_collect_def SimpleFixedSizeExemplarReservoir_reset_def
      FixedSizeExemplarReservoirABC_reset_def split: prod.splits)

lemma aligned_collect_eq:
  "AlignedHistogramBucketExemplarReservoir_collect self pa =
     (self\<lparr>reservoir_storage := fst (collect_storage (reservoir_storage self) pa)\<rparr>,
      snd (collect_storage (reservoir_storage self) pa))"
  by (simp add: AlignedHistogramBucketExemplarReservoir_collect_def
      FixedSizeExemplarReservoirABC_collect_def
      FixedSizeExemplarReservoirABC_reset_def split: prod.splits)

lemma aligned_offer_eq:
  "AlignedHistogramBucketExemplarReservoir_offer self val t a ctx =
     (self\<lparr>reservoir_storage :=
        fst (storage_offer (reservoir_storage self)
          (AlignedHistogramBucketExemplarReservoir_find_bucket_index self val) val t a ctx)\<rparr>,
      snd (storage_offer (reservoir_storage self)
          (AlignedHistogramBucketExemplarReservoir_find_bucket_index self val) val t a ctx))"
  by (simp add: AlignedHistogramBucketExemplarReservoir_offer_def Let_def split: prod.splits)

lemma simple_offer_zero_counter:
  assumes "measurements_seen self = 0"
  shows "measurements_seen (fst (SimpleFixedSizeExemplarReservoir_offer self val t a ctx entropy)) = 0"
    and "r_size (fst (SimpleFixedSizeExemplarReservoir_offer self val t a ctx entropy)) = r_size self"
    and "length (reservoir_storage (fst (SimpleFixedSizeExemplarReservoir_offer self val t a ctx entropy))) =
         length (reservoir_storage self)"
  using assms
  by (simp_all add: SimpleFixedSizeExemplarReservoir_offer_def
      SimpleFixedSizeExemplarReservoir_find_bucket_index_def randrange_def
      storage_offer_def Let_def split: prod.splits)

lemma simple_reachable_invariant:
  "simple_reachable self \<Longrightarrow>
   measurements_seen self = 0 \<and> length (reservoir_storage self) = nat (r_size self)"
proof (induction rule: simple_reachable.induct)
  case (simple_init sz kwargs self)
  then show ?case
    by (auto simp: SimpleFixedSizeExemplarReservoir_init_def FixedSizeExemplarReservoirABC_init_def
        split: if_splits)
next
  case (simple_offer self val t a ctx entropy)
  then show ?case by (simp add: simple_offer_zero_counter)
next
  case (simple_collect self point_attributes)
  then show ?case by (simp add: simple_collect_eq collect_storage_length)
qed

lemma aligned_reachable_invariant:
  "aligned_reachable self \<Longrightarrow>
   length (reservoir_storage self) = length (boundaries self) + 1 \<and>
   r_size self = int (length (boundaries self)) + 1"
proof (induction rule: aligned_reachable.induct)
  case (aligned_init bounds kwargs self)
  then show ?case
    by (auto simp: AlignedHistogramBucketExemplarReservoir_init_def
        FixedSizeExemplarReservoirABC_init_def split: if_splits)
next
  case (aligned_offer self val t a ctx)
  then show ?case by (simp add: aligned_offer_eq storage_offer_length)
next
  case (aligned_collect self point_attributes)
  then show ?case by (simp add: aligned_collect_eq collect_storage_length)
qed

lemma first_boundary_Some:
  "first_boundary (enumerate n xs) val = Some i \<Longrightarrow>
   n \<le> i \<and> i < n + length xs \<and> val \<le> xs ! (i - n) \<and> (\<forall>j < i - n. \<not> val \<le> xs ! j)"
proof (induction xs arbitrary: n)
  case Nil
  then show ?case by simp
next
  case (Cons x xs)
  show ?case
  proof (cases "val \<le> x")
    case True
    with Cons.prems show ?thesis by simp
  next
    case False
    with Cons.prems have "first_boundary (enumerate (Suc n) xs) val = Some i" by simp
    from Cons.IH [OF this]
    have ih: "Suc n \<le> i" "i < Suc n + length xs" "val \<le> xs ! (i - Suc n)"
      "\<forall>j < i - Suc n. \<not> val \<le> xs ! j" by auto
    from ih(1) have eq: "i - n = Suc (i - Suc n)" by simp
    have "\<not> val \<le> (x # xs) ! j" if "j < i - n" for j
      using that False ih(4) eq by (cases j) auto
    with ih eq show ?thesis by simp
  qed
qed

lemma first_boundary_None:
  "first_boundary (enumerate n xs) val = None \<Longrightarrow> \<forall>j < length xs. \<not> val \<le> xs ! j"
proof (induction xs arbitrary: n)
  case Nil
  then show ?case by simp
next
  case (Cons x xs)
  then have "\<not> val \<le> x" and "\<forall>j < length xs. \<not> val \<le> xs ! j"
    by (auto split: if_splits)
  then show ?case by (auto simp: nth_Cons split: nat.splits)
qed

lemma aligned_index_spec:
  fixes self val
  defines "i \<equiv> AlignedHistogramBucketExemplarReservoir_find_bucket_index self val"
  shows "0 \<le> i" and "i \<le> int (length (boundaries self))"
    and "\<forall>j < nat i. \<not> val \<le> boundaries self ! j"
    and "i < int (length (boundaries self)) \<Longrightarrow> val \<le> boundaries self ! nat i"
proof -
  show "0 \<le> i"
    by (simp add: i_def AlignedHistogramBucketExemplarReservoir_find_bucket_index_def
        split: option.splits)
  show "i \<le> int (length (boundaries self))"
    using first_boundary_Some [of 0 "boundaries self" val]
    by (auto simp: i_def AlignedHistogramBucketExemplarReservoir_find_bucket_index_def
        split: option.splits)
  show "\<forall>j < nat i. \<not> val \<le> boundaries self ! j"
    using first_boundary_Some [of 0 "boundaries self" val]
      first_boundary_None [of 0 "boundaries self" val]
    by (auto simp: i_def AlignedHistogramBucketExemplarReservoir_find_bucket_index_def
        split: option.splits)
  show "val \<le> boundaries self ! nat i" if "i < int (length (boundaries self))"
    using that first_boundary_Some [of 0 "boundaries self" val]
    by (auto simp: i_def AlignedHistogramBucketExemplarReservoir_find_bucket_index_def
        split: option.splits)
qed

section \<open>The uniform sampling counter\<close>

lemma simple_fill_branch_counter:
  "measurements_seen self < r_size self \<Longrightarrow>
   measurements_seen (fst (SimpleFixedSizeExemplarReservoir_offer self val t a ctx entropy)) =
     measurements_seen self"
  by (simp add: SimpleFixedSizeExemplarReservoir_offer_def
      SimpleFixedSizeExemplarReservoir_find_bucket_index_def split: prod.splits)

text \<open>
  C1. The specification says that every \<^verbatim>\<open>offer\<close> increments \<^verbatim>\<open>_measurements_seen\<close> by one, on the
  filling branch too. The source returns from the filling branch before the increment: a
  fresh reservoir of size 1 that is offered one measurement still has the counter at 0.
\<close>

theorem simple_offer_counter_not_incremented:
  "SimpleFixedSizeExemplarReservoir_init 1 [] =
     Inr \<lparr>r_size = 1, reservoir_storage = [ExemplarBucket_init], measurements_seen = 0\<rparr> \<and>
   measurements_seen (fst (SimpleFixedSizeExemplarReservoir_offer
     \<lparr>r_size = 1, reservoir_storage = [ExemplarBucket_init], measurements_seen = 0\<rparr>
     5 1 None (Context None) 0)) = 0"
  by (simp add: SimpleFixedSizeExemplarReservoir_init_def FixedSizeExemplarReservoirABC_init_def
      SimpleFixedSizeExemplarReservoir_offer_def
      SimpleFixedSizeExemplarReservoir_find_bucket_index_def split: prod.splits)

text \<open>
  C2. The specification says that M distinct measurements offered to a reservoir of capacity N, with
  M at most N, come back as M exemplars. With the counter stuck at 0 every offer of the
  filling phase writes bucket 0: a reservoir of size 2 that is offered two measurements
  returns the second one only.
\<close>

theorem simple_two_offers_one_exemplar:
  "SimpleFixedSizeExemplarReservoir_init 2 [] =
     Inr \<lparr>r_size = 2, reservoir_storage = [ExemplarBucket_init, ExemplarBucket_init],
          measurements_seen = 0\<rparr> \<and>
   (let r0 = \<lparr>r_size = 2, reservoir_storage = [ExemplarBucket_init, ExemplarBucket_init],
              measurements_seen = 0\<rparr>;
        r1 = fst (SimpleFixedSizeExemplarReservoir_offer r0 1 1 None (Context None) 0);
        r2 = fst (SimpleFixedSizeExemplarReservoir_offer r1 2 2 None (Context None) 0)
    in snd (SimpleFixedSizeExemplarReservoir_collect r2 (Some []))) =
     Inr [\<lparr>e_filtered_attributes = None, e_value = 2, e_time_unix_nano = 2,
           e_span_id = None, e_trace_id = None\<rparr>]"
  by (simp add: SimpleFixedSizeExemplarReservoir_init_def FixedSizeExemplarReservoirABC_init_def
      SimpleFixedSizeExemplarReservoir_offer_def numeral_2_eq_2
      SimpleFixedSizeExemplarReservoir_find_bucket_index_def storage_offer_def
      ExemplarBucket_offer_def ExemplarBucket_init_def
      SimpleFixedSizeExemplarReservoir_collect_def FixedSizeExemplarReservoirABC_collect_def
      SimpleFixedSizeExemplarReservoir_reset_def FixedSizeExemplarReservoirABC_reset_def
      ExemplarBucket_collect_def truthy_def Let_def)

section \<open>Construction\<close>

text \<open>
  C3, as stated: constructing a reservoir with a capacity of zero or less fails. It does
  not: the constructor of the uniform sampling reservoir returns an instance for size 0.
\<close>

theorem init_size_zero_succeeds:
  "SimpleFixedSizeExemplarReservoir_init 0 [] =
     Inr \<lparr>r_size = 0, reservoir_storage = [], measurements_seen = 0\<rparr>"
  by (simp add: SimpleFixedSizeExemplarReservoir_init_def FixedSizeExemplarReservoirABC_init_def)

text \<open>
  C3, amended: constructing a fixed-size reservoir with a size of zero or less (and no
  further keyword arguments) does not fail; it returns an instance that has no buckets and
  whose \<^verbatim>\<open>maxSize()\<close> is the size given.
\<close>

theorem init_nonpositive_size:
  "sz \<le> 0 \<Longrightarrow>
   FixedSizeExemplarReservoirABC_init sz [] = Inr \<lparr>r_size = sz, reservoir_storage = []\<rparr> \<and>
   SimpleFixedSizeExemplarReservoir_init sz [] =
     Inr \<lparr>r_size = sz, reservoir_storage = [], measurements_seen = 0\<rparr> \<and>
   maxSize \<lparr>r_size = sz, reservoir_storage = [], measurements_seen = 0\<rparr> = sz"
  by (simp add: SimpleFixedSizeExemplarReservoir_init_def FixedSizeExemplarReservoirABC_init_def
      maxSize_def)

theorem init_nonpositive_size_witness:
  "(- 3 :: int) \<le> 0 \<and>
   SimpleFixedSizeExemplarReservoir_init (- 3) [] =
     Inr \<lparr>r_size = - 3, reservoir_storage = [], measurements_seen = 0\<rparr>"
  using init_nonpositive_size [of "- 3"] by simp

section \<open>Buckets\<close>

lemma bucket_offer_invalid_span_keeps_ids:
  "b_span_id (ExemplarBucket_offer b val t a (Context None)) = b_span_id b \<and>
   b_trace_id (ExemplarBucket_offer b val t a (Context None)) = b_trace_id b"
  by (simp add: ExemplarBucket_offer_def)

text \<open>
  C4. The specification says that an offer without a valid span leaves the span and trace identity of
  the bucket absent, whatever the bucket held. The source only writes the two fields when
  there is a valid span: a bucket offered first under span 7 of trace 9 and then without
  a span yields an exemplar of the second measurement with the identity of the first.
\<close>

theorem bucket_offer_stale_span:
  "ExemplarBucket_collect
     (ExemplarBucket_offer
        (ExemplarBucket_offer ExemplarBucket_init 5 1 None (Context (Some (Span (SpanContext 7 9)))))
        8 2 None (Context None))
     (Some []) =
   (\<lparr>b_value = 0, b_attributes = Some [], b_time_unix_nano = 0,
     b_span_id = None, b_trace_id = None, b_offered = False\<rparr>,
    Inr (Some \<lparr>e_filtered_attributes = None, e_value = 8, e_time_unix_nano = 2,
               e_span_id = Some 7, e_trace_id = Some 9\<rparr>))"
  by (simp add: ExemplarBucket_offer_def ExemplarBucket_init_def ExemplarBucket_collect_def
      ExemplarBucket_reset_def truthy_def)

text \<open>
  C9. The specification says that \<^verbatim>\<open>offer\<close> and \<^verbatim>\<open>collect\<close> never raise, also for the absent mapping
  as point attributes. A bucket that holds a measurement with an attribute raises
  \<^verbatim>\<open>TypeError\<close> on \<^verbatim>\<open>collect(None)\<close>, and so does the reservoir that owns it; an offer to a
  uniform sampling reservoir of size 0 raises \<^verbatim>\<open>ValueError\<close>.
\<close>

theorem collect_none_point_attributes_raises:
  "snd (ExemplarBucket_collect
     (ExemplarBucket_offer ExemplarBucket_init 5 1 (Some [(''k'', AInt 1)]) (Context None))
     None) = Inl TypeError \<and>
   AlignedHistogramBucketExemplarReservoir_init [10, 20] [] =
     Inr \<lparr>r_size = 3,
          reservoir_storage = [ExemplarBucket_init, ExemplarBucket_init, ExemplarBucket_init],
          boundaries = [10, 20]\<rparr> \<and>
   snd (AlignedHistogramBucketExemplarReservoir_collect
     (fst (AlignedHistogramBucketExemplarReservoir_offer
        \<lparr>r_size = 3,
          reservoir_storage = [ExemplarBucket_init, ExemplarBucket_init, ExemplarBucket_init],
          boundaries = [10, 20]\<rparr>
        5 1 (Some [(''k'', AInt 1)]) (Context None)))
     None) = Inl TypeError \<and>
   snd (SimpleFixedSizeExemplarReservoir_offer
     \<lparr>r_size = 0, reservoir_storage = [], measurements_seen = 0\<rparr>
     5 1 None (Context None) 0) = Inl ValueError"
  by (simp add: ExemplarBucket_offer_def ExemplarBucket_init_def ExemplarBucket_collect_def
      truthy_def attribute_items_def filter_items_def
      AlignedHistogramBucketExemplarReservoir_init_def FixedSizeExemplarReservoirABC_init_def
      AlignedHistogramBucketExemplarReservoir_offer_def
      AlignedHistogramBucketExemplarReservoir_find_bucket_index_def storage_offer_def
      AlignedHistogramBucketExemplarReservoir_collect_def FixedSizeExemplarReservoirABC_collect_def
      FixedSizeExemplarReservoirABC_reset_def numeral_3_eq_3
      SimpleFixedSizeExemplarReservoir_offer_def
      SimpleFixedSizeExemplarReservoir_find_bucket_index_def randrange_def Let_def)

section \<open>Evaluation on concrete reservoirs\<close>

lemmas eval_defs =
  SimpleFixedSizeExemplarReservoir_init_def AlignedHistogramBucketExemplarReservoir_init_def
  FixedSizeExemplarReservoirABC_init_def
  SimpleFixedSizeExemplarReservoir_offer_def SimpleFixedSizeExemplarReservoir_find_bucket_index_def
  AlignedHistogramBucketExemplarReservoir_offer_def
  AlignedHistogramBucketExemplarReservoir_find_bucket_index_def
  storage_offer_def ExemplarBucket_offer_def ExemplarBucket_init_def ExemplarBucket_reset_def
  ExemplarBucket_collect_def truthy_def attribute_items_def attribute_keys_def filter_items_def
  simple_collect_eq aligned_collect_eq Let_def numeral_2_eq_2 numeral_3_eq_3

lemma simple_reachable_counter_zero:
  "simple_reachable self \<Longrightarrow> measurements_seen self = 0"
  by (simp add: simple_reachable_invariant)

section \<open>Histogram-aligned bucket selection\<close>

text \<open>
  C5. For every histogram-aligned reservoir and every offered value, the index found is the
  least \<open>i\<close> with \<open>val \<le> boundaries[i]\<close>, or \<open>len(boundaries)\<close> when the value exceeds every
  boundary (no ordering of the boundaries is needed for that); the offer writes the bucket
  at that index, whose value, timestamp and attributes are then those of the new
  measurement, whatever it held before. With boundaries \<open>[10, 20]\<close> the values 5, 15 and 25
  go to the buckets 0, 1 and 2, and after offering 5 and then 8 the collection returns the
  one exemplar of 8.
\<close>

theorem aligned_offer_bucket_selection:
  "(let i = AlignedHistogramBucketExemplarReservoir_find_bucket_index self val;
        bs = boundaries self;
        storage = reservoir_storage self
    in 0 \<le> i \<and> i \<le> int (length bs) \<and>
       (\<forall>j < nat i. bs ! j < val) \<and>
       (i < int (length bs) \<longrightarrow> val \<le> bs ! nat i) \<and>
       (i = int (length bs) \<longleftrightarrow> (\<forall>j < length bs. bs ! j < val)) \<and>
       (length storage = length bs + 1 \<longrightarrow>
          AlignedHistogramBucketExemplarReservoir_offer self val t a ctx =
            (self\<lparr>reservoir_storage :=
               storage[nat i := ExemplarBucket_offer (storage ! nat i) val t a ctx]\<rparr>,
             Inr ()))) \<and>
   b_value (ExemplarBucket_offer bucket val t a ctx) = val \<and>
   b_time_unix_nano (ExemplarBucket_offer bucket val t a ctx) = t \<and>
   b_attributes (ExemplarBucket_offer bucket val t a ctx) = a \<and>
   b_offered (ExemplarBucket_offer bucket val t a ctx) \<and>
   (let r0 = \<lparr>r_size = 3,
              reservoir_storage = [ExemplarBucket_init, ExemplarBucket_init, ExemplarBucket_init],
              boundaries = [10, 20]\<rparr>;
        r1 = fst (AlignedHistogramBucketExemplarReservoir_offer r0 5 1 None (Context None));
        r2 = fst (AlignedHistogramBucketExemplarReservoir_offer r1 8 2 None (Context None))
    in AlignedHistogramBucketExemplarReservoir_init [10, 20] [] = Inr r0 \<and>
       AlignedHistogramBucketExemplarReservoir_find_bucket_index r0 5 = 0 \<and>
       AlignedHistogramBucketExemplarReservoir_find_bucket_index r0 15 = 1 \<and>
       AlignedHistogramBucketExemplarReservoir_find_bucket_index r0 25 = 2 \<and>
       snd (AlignedHistogramBucketExemplarReservoir_collect r2 (Some [])) =
         Inr [\<lparr>e_filtered_attributes = None, e_value = 8, e_time_unix_nano = 2,
               e_span_id = None, e_trace_id = None\<rparr>])"
proof -
  define i where "i = AlignedHistogramBucketExemplarReservoir_find_bucket_index self val"
  define bs where "bs = boundaries self"
  define storage where "storage = reservoir_storage self"
  note spec = aligned_index_spec [of self val, folded i_def bs_def]
  have lo: "0 \<le> i" and hi: "i \<le> int (length bs)" by (rule spec)+
  have below: "\<forall>j < nat i. bs ! j < val" using spec(3) by (simp add: not_le)
  have here: "i < int (length bs) \<longrightarrow> val \<le> bs ! nat i" using spec(4) by simp
  have over: "i = int (length bs) \<longleftrightarrow> (\<forall>j < length bs. bs ! j < val)"
  proof
    assume "i = int (length bs)"
    with below show "\<forall>j < length bs. bs ! j < val" by simp
  next
    assume all: "\<forall>j < length bs. bs ! j < val"
    show "i = int (length bs)"
    proof (rule ccontr)
      assume "i \<noteq> int (length bs)"
      with hi have less: "i < int (length bs)" by simp
      with here have "val \<le> bs ! nat i" by simp
      moreover from less lo all have "bs ! nat i < val" by simp
      ultimately show False by simp
    qed
  qed
  have writes: "length storage = length bs + 1 \<longrightarrow>
      AlignedHistogramBucketExemplarReservoir_offer self val t a ctx =
        (self\<lparr>reservoir_storage :=
           storage[nat i := ExemplarBucket_offer (storage ! nat i) val t a ctx]\<rparr>, Inr ())"
    using lo hi
    by (simp add: AlignedHistogramBucketExemplarReservoir_offer_def storage_offer_def Let_def
        i_def [symmetric] storage_def [symmetric])
  have general: "0 \<le> i \<and> i \<le> int (length bs) \<and>
       (\<forall>j < nat i. bs ! j < val) \<and>
       (i < int (length bs) \<longrightarrow> val \<le> bs ! nat i) \<and>
       (i = int (length bs) \<longleftrightarrow> (\<forall>j < length bs. bs ! j < val)) \<and>
       (length storage = length bs + 1 \<longrightarrow>
          AlignedHistogramBucketExemplarReservoir_offer self val t a ctx =
            (self\<lparr>reservoir_storage :=
               storage[nat i := ExemplarBucket_offer (storage ! nat i) val t a ctx]\<rparr>,
             Inr ()))"
    using lo hi below here over writes by blast
  have bucket: "b_value (ExemplarBucket_offer bucket val t a ctx) = val \<and>
     b_time_unix_nano (ExemplarBucket_offer bucket val t a ctx) = t \<and>
     b_attributes (ExemplarBucket_offer bucket val t a ctx) = a \<and>
     b_offered (ExemplarBucket_offer bucket val t a ctx)"
    by (simp add: ExemplarBucket_offer_def Let_def)
  have example: "(let r0 = \<lparr>r_size = 3,
              reservoir_storage = [ExemplarBucket_init, ExemplarBucket_init, ExemplarBucket_init],
              boundaries = [10, 20]\<rparr>;
        r1 = fst (AlignedHistogramBucketExemplarReservoir_offer r0 5 1 None (Context None));
        r2 = fst (AlignedHistogramBucketExemplarReservoir_offer r1 8 2 None (Context None))
    in AlignedHistogramBucketExemplarReservoir_init [10, 20] [] = Inr r0 \<and>
       AlignedHistogramBucketExemplarReservoir_find_bucket_index r0 5 = 0 \<and>
       AlignedHistogramBucketExemplarReservoir_find_bucket_index r0 15 = 1 \<and>
       AlignedHistogramBucketExemplarReservoir_find_bucket_index r0 25 = 2 \<and>
       snd (AlignedHistogramBucketExemplarReservoir_collect r2 (Some [])) =
         Inr [\<lparr>e_filtered_attributes = None, e_value = 8, e_time_unix_nano = 2,
               e_span_id = None, e_trace_id = None\<rparr>])"
    by (simp add: AlignedHistogramBucketExemplarReservoir_init_def
        FixedSizeExemplarReservoirABC_init_def numeral_3_eq_3
        AlignedHistogramBucketExemplarReservoir_find_bucket_index_def
        AlignedHistogramBucketExemplarReservoir_offer_def storage_offer_def
        ExemplarBucket_offer_def ExemplarBucket_init_def aligned_collect_eq
        ExemplarBucket_collect_def truthy_def Let_def)
  show ?thesis
    using general bucket example
    unfolding i_def bs_def storage_def Let_def by blast
qed

theorem aligned_offer_bucket_selection_witness:
  "(let r0 = \<lparr>r_size = 3,
              reservoir_storage = [ExemplarBucket_init, ExemplarBucket_init, ExemplarBucket_init],
              boundaries = [10, 20]\<rparr>
    in AlignedHistogramBucketExemplarReservoir_find_bucket_index r0 15 = 1 \<and>
       (0::nat) < nat (AlignedHistogramBucketExemplarReservoir_find_bucket_index r0 15) \<and>
       boundaries r0 ! 0 < 15 \<and>
       AlignedHistogramBucketExemplarReservoir_find_bucket_index r0 15 < int (length (boundaries r0)) \<and>
       15 \<le> boundaries r0 ! 1 \<and>
       length (reservoir_storage r0) = length (boundaries r0) + 1 \<and>
       AlignedHistogramBucketExemplarReservoir_offer r0 15 1 None (Context None) =
         (r0\<lparr>reservoir_storage :=
            [ExemplarBucket_init,
             ExemplarBucket_offer ExemplarBucket_init 15 1 None (Context None),
             ExemplarBucket_init]\<rparr>, Inr ()))"
proof -
  let ?r0 = "\<lparr>r_size = 3,
              reservoir_storage = [ExemplarBucket_init, ExemplarBucket_init, ExemplarBucket_init],
              boundaries = [10, 20]\<rparr>"
  have idx: "AlignedHistogramBucketExemplarReservoir_find_bucket_index ?r0 15 = 1"
    by (simp add: AlignedHistogramBucketExemplarReservoir_find_bucket_index_def)
  have len: "length (reservoir_storage ?r0) = length (boundaries ?r0) + 1" by simp
  note t = aligned_offer_bucket_selection [where self = ?r0 and val = 15 and t = 1 and a = None
      and ctx = "Context None", unfolded Let_def idx]
  from t have below: "boundaries ?r0 ! 0 < 15" by simp
  from t have upto: "15 \<le> boundaries ?r0 ! 1" by simp
  from t len have offer: "AlignedHistogramBucketExemplarReservoir_offer ?r0 15 1 None (Context None) =
         (?r0\<lparr>reservoir_storage :=
            [ExemplarBucket_init,
             ExemplarBucket_offer ExemplarBucket_init 15 1 None (Context None),
             ExemplarBucket_init]\<rparr>, Inr ())" by simp
  show ?thesis
    unfolding Let_def idx using below upto offer by simp
qed

text \<open>
  C10. In every reachable state of a histogram-aligned reservoir the index found lies in
  \<open>[0, len(boundaries)]\<close>, the storage has \<open>len(boundaries) + 1\<close> buckets, and so every offer
  returns without an \<^verbatim>\<open>IndexError\<close>, marks the bucket at that index as offered and leaves
  every other bucket as it was.
\<close>

theorem aligned_offer_in_bounds:
  "aligned_reachable self \<Longrightarrow>
   (let i = AlignedHistogramBucketExemplarReservoir_find_bucket_index self val;
        storage = reservoir_storage self;
        result = AlignedHistogramBucketExemplarReservoir_offer self val t a ctx
    in 0 \<le> i \<and> i \<le> int (length (boundaries self)) \<and>
       length storage = length (boundaries self) + 1 \<and>
       nat i < length storage \<and>
       snd result = Inr () \<and>
       reservoir_storage (fst result) =
         storage[nat i := ExemplarBucket_offer (storage ! nat i) val t a ctx] \<and>
       b_offered (reservoir_storage (fst result) ! nat i) \<and>
       (\<forall>j < length storage. j \<noteq> nat i \<longrightarrow> reservoir_storage (fst result) ! j = storage ! j))"
proof -
  assume "aligned_reachable self"
  then have len: "length (reservoir_storage self) = length (boundaries self) + 1"
    using aligned_reachable_invariant by blast
  define i where "i = AlignedHistogramBucketExemplarReservoir_find_bucket_index self val"
  have lo: "0 \<le> i" and hi: "i \<le> int (length (boundaries self))"
    unfolding i_def by (rule aligned_index_spec)+
  from lo hi len have inb: "nat i < length (reservoir_storage self)" by simp
  have res: "AlignedHistogramBucketExemplarReservoir_offer self val t a ctx =
      (self\<lparr>reservoir_storage := (reservoir_storage self)
          [nat i := ExemplarBucket_offer (reservoir_storage self ! nat i) val t a ctx]\<rparr>, Inr ())"
    using lo hi len
    by (simp add: AlignedHistogramBucketExemplarReservoir_offer_def storage_offer_def Let_def
        i_def [symmetric])
  have off: "b_offered (ExemplarBucket_offer (reservoir_storage self ! nat i) val t a ctx)"
    by (simp add: ExemplarBucket_offer_def Let_def)
  show ?thesis
    unfolding Let_def i_def [symmetric]
    using lo hi len inb off by (simp add: res)
qed

theorem aligned_offer_in_bounds_witness:
  "(let a0 = \<lparr>r_size = 3,
              reservoir_storage = [ExemplarBucket_init, ExemplarBucket_init, ExemplarBucket_init],
              boundaries = [10, 20]\<rparr>
    in aligned_reachable a0 \<and>
       AlignedHistogramBucketExemplarReservoir_find_bucket_index a0 25 = 2 \<and>
       snd (AlignedHistogramBucketExemplarReservoir_offer a0 25 1 None (Context None)) = Inr () \<and>
       reservoir_storage (fst (AlignedHistogramBucketExemplarReservoir_offer a0 25 1 None (Context None))) =
         [ExemplarBucket_init, ExemplarBucket_init,
          ExemplarBucket_offer ExemplarBucket_init 25 1 None (Context None)])"
proof -
  let ?ainit = "\<lparr>r_size = 3,
              reservoir_storage = [ExemplarBucket_init, ExemplarBucket_init, ExemplarBucket_init],
              boundaries = [10, 20]\<rparr>"
  have "AlignedHistogramBucketExemplarReservoir_init [10, 20] [] = Inr ?ainit"
    by (simp add: eval_defs)
  then have ra: "aligned_reachable ?ainit" by (rule aligned_reachable.aligned_init)
  have idx: "AlignedHistogramBucketExemplarReservoir_find_bucket_index ?ainit 25 = 2"
    by (simp add: AlignedHistogramBucketExemplarReservoir_find_bucket_index_def)
  note t = aligned_offer_in_bounds [OF ra, where val = 25 and t = 1 and a = None
      and ctx = "Context None", unfolded Let_def idx]
  from t have "snd (AlignedHistogramBucketExemplarReservoir_offer ?ainit 25 1 None (Context None)) = Inr ()"
    and "reservoir_storage (fst (AlignedHistogramBucketExemplarReservoir_offer ?ainit 25 1 None (Context None))) =
         [ExemplarBucket_init, ExemplarBucket_init,
          ExemplarBucket_offer ExemplarBucket_init 25 1 None (Context None)]"
    by (simp_all add: numeral_2_eq_2)
  with ra idx show ?thesis unfolding Let_def by blast
qed

section \<open>Collection\<close>

text \<open>
  C6. Every exemplar that \<^verbatim>\<open>collect(point_attributes)\<close> returns, from a bucket or from either
  reservoir, has no attribute key that is a key of \<open>point_attributes\<close>: its filtered
  attributes are the items of the bucket's stored attributes without those whose key is in
  \<open>point_attributes\<close> (an absent mapping and an empty one both have no items).
\<close>

theorem collect_filters_point_attributes:
  "(ExemplarBucket_collect b pa = (b1, Inr (Some e)) \<longrightarrow>
      attribute_keys (e_filtered_attributes e) \<inter> attribute_keys pa = {} \<and>
      attribute_items (e_filtered_attributes e) =
        filter (\<lambda>(k, v). k \<notin> attribute_keys pa) (attribute_items (b_attributes b))) \<and>
   (SimpleFixedSizeExemplarReservoir_collect s pa = (s1, Inr exs) \<and> x \<in> set exs \<longrightarrow>
      attribute_keys (e_filtered_attributes x) \<inter> attribute_keys pa = {} \<and>
      (\<exists>bucket \<in> set (reservoir_storage s). b_offered bucket \<and>
         attribute_items (e_filtered_attributes x) =
           filter (\<lambda>(k, v). k \<notin> attribute_keys pa) (attribute_items (b_attributes bucket)))) \<and>
   (AlignedHistogramBucketExemplarReservoir_collect a pa = (a1, Inr exs') \<and> x' \<in> set exs' \<longrightarrow>
      attribute_keys (e_filtered_attributes x') \<inter> attribute_keys pa = {} \<and>
      (\<exists>bucket \<in> set (reservoir_storage a). b_offered bucket \<and>
         attribute_items (e_filtered_attributes x') =
           filter (\<lambda>(k, v). k \<notin> attribute_keys pa) (attribute_items (b_attributes bucket))))"
proof (intro conjI impI)
  assume "ExemplarBucket_collect b pa = (b1, Inr (Some e))"
  then show "attribute_keys (e_filtered_attributes e) \<inter> attribute_keys pa = {}"
    and "attribute_items (e_filtered_attributes e) =
      filter (\<lambda>(k, v). k \<notin> attribute_keys pa) (attribute_items (b_attributes b))"
    by (rule bucket_collect_filtered)+
next
  assume h: "SimpleFixedSizeExemplarReservoir_collect s pa = (s1, Inr exs) \<and> x \<in> set exs"
  then have "collect_storage (reservoir_storage s) pa =
      (fst (collect_storage (reservoir_storage s) pa), Inr exs)"
    by (simp add: simple_collect_eq prod_eq_iff)
  from collect_storage_origin [OF this] h
  obtain bucket b1 where bk: "bucket \<in> set (reservoir_storage s)"
    "ExemplarBucket_collect bucket pa = (b1, Inr (Some x))" by blast
  from bucket_collect_filtered [OF bk(2)]
  show "attribute_keys (e_filtered_attributes x) \<inter> attribute_keys pa = {}"
    and "\<exists>bucket \<in> set (reservoir_storage s). b_offered bucket \<and>
         attribute_items (e_filtered_attributes x) =
           filter (\<lambda>(k, v). k \<notin> attribute_keys pa) (attribute_items (b_attributes bucket))"
    using bk(1) by blast+
next
  assume h: "AlignedHistogramBucketExemplarReservoir_collect a pa = (a1, Inr exs') \<and> x' \<in> set exs'"
  then have "collect_storage (reservoir_storage a) pa =
      (fst (collect_storage (reservoir_storage a) pa), Inr exs')"
    by (simp add: aligned_collect_eq prod_eq_iff)
  from collect_storage_origin [OF this] h
  obtain bucket b1 where bk: "bucket \<in> set (reservoir_storage a)"
    "ExemplarBucket_collect bucket pa = (b1, Inr (Some x'))" by blast
  from bucket_collect_filtered [OF bk(2)]
  show "attribute_keys (e_filtered_attributes x') \<inter> attribute_keys pa = {}"
    and "\<exists>bucket \<in> set (reservoir_storage a). b_offered bucket \<and>
         attribute_items (e_filtered_attributes x') =
           filter (\<lambda>(k, v). k \<notin> attribute_keys pa) (attribute_items (b_attributes bucket))"
    using bk(1) by blast+
qed

theorem collect_filters_point_attributes_witness:
  "(let bucket = ExemplarBucket_offer ExemplarBucket_init 5 1
                   (Some [(''k'', AInt 1), (''j'', AInt 2)]) (Context None);
        pa = Some [(''k'', AInt 3)];
        e = \<lparr>e_filtered_attributes = Some [(''j'', AInt 2)], e_value = 5, e_time_unix_nano = 1,
             e_span_id = None, e_trace_id = None\<rparr>;
        s = \<lparr>r_size = 1, reservoir_storage = [bucket], measurements_seen = 0\<rparr>;
        a = \<lparr>r_size = 1, reservoir_storage = [bucket], boundaries = []\<rparr>
    in ExemplarBucket_collect bucket pa = (ExemplarBucket_reset bucket, Inr (Some e)) \<and>
       snd (SimpleFixedSizeExemplarReservoir_collect s pa) = Inr [e] \<and>
       snd (AlignedHistogramBucketExemplarReservoir_collect a pa) = Inr [e] \<and>
       attribute_keys (e_filtered_attributes e) \<inter> attribute_keys pa = {} \<and>
       attribute_items (e_filtered_attributes e) =
         filter (\<lambda>(k, v). k \<notin> attribute_keys pa) (attribute_items (b_attributes bucket)))"
proof -
  let ?bucket = "ExemplarBucket_offer ExemplarBucket_init 5 1
                   (Some [(''k'', AInt 1), (''j'', AInt 2)]) (Context None)"
  let ?pa = "Some [(''k'', AInt 3)]"
  let ?e = "\<lparr>e_filtered_attributes = Some [(''j'', AInt 2)], e_value = 5, e_time_unix_nano = 1,
             e_span_id = None, e_trace_id = None\<rparr>"
  let ?s = "\<lparr>r_size = 1, reservoir_storage = [?bucket], measurements_seen = 0\<rparr>"
  let ?a = "\<lparr>r_size = 1, reservoir_storage = [?bucket], boundaries = []\<rparr>"
  have hb: "ExemplarBucket_collect ?bucket ?pa = (ExemplarBucket_reset ?bucket, Inr (Some ?e))"
    by (simp add: eval_defs)
  have hs: "SimpleFixedSizeExemplarReservoir_collect ?s ?pa =
      (fst (SimpleFixedSizeExemplarReservoir_collect ?s ?pa), Inr [?e]) \<and> ?e \<in> set [?e]"
    by (simp add: prod_eq_iff simple_collect_eq hb)
  have ha: "AlignedHistogramBucketExemplarReservoir_collect ?a ?pa =
      (fst (AlignedHistogramBucketExemplarReservoir_collect ?a ?pa), Inr [?e]) \<and> ?e \<in> set [?e]"
    by (simp add: prod_eq_iff aligned_collect_eq hb)
  note t = collect_filters_point_attributes [where b = ?bucket and pa = ?pa
      and ?b1.0 = "ExemplarBucket_reset ?bucket" and e = ?e
      and s = ?s and ?s1.0 = "fst (SimpleFixedSizeExemplarReservoir_collect ?s ?pa)"
      and exs = "[?e]" and x = ?e
      and a = ?a and ?a1.0 = "fst (AlignedHistogramBucketExemplarReservoir_collect ?a ?pa)"
      and exs' = "[?e]" and x' = ?e]
  from t hb have c: "attribute_keys (e_filtered_attributes ?e) \<inter> attribute_keys ?pa = {} \<and>
      attribute_items (e_filtered_attributes ?e) =
        filter (\<lambda>(k, v). k \<notin> attribute_keys ?pa) (attribute_items (b_attributes ?bucket))"
    by blast
  from t hs ha have "attribute_keys (e_filtered_attributes ?e) \<inter> attribute_keys ?pa = {}"
    by blast
  have "snd (SimpleFixedSizeExemplarReservoir_collect ?s ?pa) = Inr [?e]"
    and "snd (AlignedHistogramBucketExemplarReservoir_collect ?a ?pa) = Inr [?e]"
    using hs ha by (metis snd_conv)+
  with hb c show ?thesis unfolding Let_def by blast
qed

text \<open>
  C7. When \<^verbatim>\<open>collect\<close> has returned, a second \<^verbatim>\<open>collect\<close> with no offer in between returns
  the empty sequence, for a bucket (nothing) and for both reservoirs, whatever the point
  attributes of the second call are. The first call does return whenever its point
  attributes are a mapping.
\<close>

theorem collect_twice_empty:
  "(ExemplarBucket_collect b pa = (b1, Inr r) \<longrightarrow> ExemplarBucket_collect b1 pa' = (b1, Inr None)) \<and>
   (SimpleFixedSizeExemplarReservoir_collect s pa = (s1, Inr exs) \<longrightarrow>
      snd (SimpleFixedSizeExemplarReservoir_collect s1 pa') = Inr []) \<and>
   (AlignedHistogramBucketExemplarReservoir_collect a pa = (a1, Inr exs') \<longrightarrow>
      snd (AlignedHistogramBucketExemplarReservoir_collect a1 pa') = Inr []) \<and>
   (\<exists>exs. snd (SimpleFixedSizeExemplarReservoir_collect s (Some m)) = Inr exs) \<and>
   (\<exists>exs. snd (AlignedHistogramBucketExemplarReservoir_collect a (Some m)) = Inr exs)"
proof (intro conjI impI)
  assume "ExemplarBucket_collect b pa = (b1, Inr r)"
  then show "ExemplarBucket_collect b1 pa' = (b1, Inr None)"
    by (simp add: bucket_collect_empties bucket_collect_not_offered)
next
  assume h: "SimpleFixedSizeExemplarReservoir_collect s pa = (s1, Inr exs)"
  then have "collect_storage (reservoir_storage s) pa = (reservoir_storage s1, Inr exs)"
    by (auto simp: simple_collect_eq prod_eq_iff)
  then have "\<forall>bucket \<in> set (reservoir_storage s1). \<not> b_offered bucket"
    using collect_storage_empties by blast
  then show "snd (SimpleFixedSizeExemplarReservoir_collect s1 pa') = Inr []"
    by (simp add: simple_collect_eq collect_storage_all_empty)
next
  assume h: "AlignedHistogramBucketExemplarReservoir_collect a pa = (a1, Inr exs')"
  then have "collect_storage (reservoir_storage a) pa = (reservoir_storage a1, Inr exs')"
    by (auto simp: aligned_collect_eq prod_eq_iff)
  then have "\<forall>bucket \<in> set (reservoir_storage a1). \<not> b_offered bucket"
    using collect_storage_empties by blast
  then show "snd (AlignedHistogramBucketExemplarReservoir_collect a1 pa') = Inr []"
    by (simp add: aligned_collect_eq collect_storage_all_empty)
next
  show "\<exists>exs. snd (SimpleFixedSizeExemplarReservoir_collect s (Some m)) = Inr exs"
    using collect_storage_mapping_returns [of "reservoir_storage s" m]
    by (auto simp: simple_collect_eq)
next
  show "\<exists>exs. snd (AlignedHistogramBucketExemplarReservoir_collect a (Some m)) = Inr exs"
    using collect_storage_mapping_returns [of "reservoir_storage a" m]
    by (auto simp: aligned_collect_eq)
qed

theorem collect_twice_empty_witness:
  "(let bucket = ExemplarBucket_offer ExemplarBucket_init 5 1 (Some [(''k'', AInt 1)]) (Context None);
        e = \<lparr>e_filtered_attributes = Some [(''k'', AInt 1)], e_value = 5, e_time_unix_nano = 1,
             e_span_id = None, e_trace_id = None\<rparr>;
        s = \<lparr>r_size = 1, reservoir_storage = [bucket], measurements_seen = 0\<rparr>;
        a = \<lparr>r_size = 1, reservoir_storage = [bucket], boundaries = []\<rparr>
    in ExemplarBucket_collect bucket (Some []) = (ExemplarBucket_reset bucket, Inr (Some e)) \<and>
       ExemplarBucket_collect (ExemplarBucket_reset bucket) None =
         (ExemplarBucket_reset bucket, Inr None) \<and>
       snd (SimpleFixedSizeExemplarReservoir_collect s (Some [])) = Inr [e] \<and>
       snd (SimpleFixedSizeExemplarReservoir_collect
              (fst (SimpleFixedSizeExemplarReservoir_collect s (Some []))) None) = Inr [] \<and>
       snd (AlignedHistogramBucketExemplarReservoir_collect a (Some [])) = Inr [e] \<and>
       snd (AlignedHistogramBucketExemplarReservoir_collect
              (fst (AlignedHistogramBucketExemplarReservoir_collect a (Some []))) None) = Inr [])"
proof -
  let ?bucket = "ExemplarBucket_offer ExemplarBucket_init 5 1 (Some [(''k'', AInt 1)]) (Context None)"
  let ?e = "\<lparr>e_filtered_attributes = Some [(''k'', AInt 1)], e_value = 5, e_time_unix_nano = 1,
             e_span_id = None, e_trace_id = None\<rparr>"
  let ?s = "\<lparr>r_size = 1, reservoir_storage = [?bucket], measurements_seen = 0\<rparr>"
  let ?a = "\<lparr>r_size = 1, reservoir_storage = [?bucket], boundaries = []\<rparr>"
  have hb: "ExemplarBucket_collect ?bucket (Some []) = (ExemplarBucket_reset ?bucket, Inr (Some ?e))"
    by (simp add: eval_defs)
  have hs: "SimpleFixedSizeExemplarReservoir_collect ?s (Some []) =
      (fst (SimpleFixedSizeExemplarReservoir_collect ?s (Some [])), Inr [?e])"
    by (simp add: prod_eq_iff simple_collect_eq hb)
  have ha: "AlignedHistogramBucketExemplarReservoir_collect ?a (Some []) =
      (fst (AlignedHistogramBucketExemplarReservoir_collect ?a (Some [])), Inr [?e])"
    by (simp add: prod_eq_iff aligned_collect_eq hb)
  note t = collect_twice_empty [where b = ?bucket and pa = "Some []"
      and ?b1.0 = "ExemplarBucket_reset ?bucket" and r = "Some ?e" and pa' = None
      and s = ?s and ?s1.0 = "fst (SimpleFixedSizeExemplarReservoir_collect ?s (Some []))"
      and exs = "[?e]"
      and a = ?a and ?a1.0 = "fst (AlignedHistogramBucketExemplarReservoir_collect ?a (Some []))"
      and exs' = "[?e]"]
  from t hb have c1: "ExemplarBucket_collect (ExemplarBucket_reset ?bucket) None =
         (ExemplarBucket_reset ?bucket, Inr None)" by blast
  from t hs have c2: "snd (SimpleFixedSizeExemplarReservoir_collect
              (fst (SimpleFixedSizeExemplarReservoir_collect ?s (Some []))) None) = Inr []"
    by blast
  from t ha have c3: "snd (AlignedHistogramBucketExemplarReservoir_collect
              (fst (AlignedHistogramBucketExemplarReservoir_collect ?a (Some []))) None) = Inr []"
    by blast
  have "snd (SimpleFixedSizeExemplarReservoir_collect ?s (Some [])) = Inr [?e]"
    and "snd (AlignedHistogramBucketExemplarReservoir_collect ?a (Some [])) = Inr [?e]"
    using hs ha by (metis snd_conv)+
  with hb c1 c2 c3 show ?thesis unfolding Let_def by blast
qed

text \<open>
  C8. In every reachable state of either reservoir, a \<^verbatim>\<open>collect\<close> that returns yields at
  most as many exemplars as the reservoir has buckets (the capacity: \<open>nat size\<close> buckets),
  leaves every bucket empty (\<open>offered\<close> false) and the number of buckets unchanged, and
  leaves the measurement counter of the uniform sampling reservoir at 0.
\<close>

theorem collect_bounded_and_resets:
  "(simple_reachable s \<and> SimpleFixedSizeExemplarReservoir_collect s pa = (s1, Inr exs) \<longrightarrow>
      length (reservoir_storage s) = nat (r_size s) \<and>
      length exs \<le> length (reservoir_storage s) \<and>
      length (reservoir_storage s1) = length (reservoir_storage s) \<and>
      (\<forall>bucket \<in> set (reservoir_storage s1). \<not> b_offered bucket) \<and>
      measurements_seen s1 = 0) \<and>
   (aligned_reachable a \<and> AlignedHistogramBucketExemplarReservoir_collect a pa = (a1, Inr exs') \<longrightarrow>
      length (reservoir_storage a) = nat (r_size a) \<and>
      length exs' \<le> length (reservoir_storage a) \<and>
      length (reservoir_storage a1) = length (reservoir_storage a) \<and>
      (\<forall>bucket \<in> set (reservoir_storage a1). \<not> b_offered bucket))"
proof (intro conjI impI)
  assume h: "simple_reachable s \<and> SimpleFixedSizeExemplarReservoir_collect s pa = (s1, Inr exs)"
  then have cs: "collect_storage (reservoir_storage s) pa = (reservoir_storage s1, Inr exs)"
    and seen: "measurements_seen s1 = 0"
    by (auto simp: simple_collect_eq prod_eq_iff)
  show "length (reservoir_storage s) = nat (r_size s)"
    using h simple_reachable_invariant by blast
  show "length exs \<le> length (reservoir_storage s)"
    and "\<forall>bucket \<in> set (reservoir_storage s1). \<not> b_offered bucket"
    using collect_storage_empties [OF cs] by blast+
  show "length (reservoir_storage s1) = length (reservoir_storage s)"
    using collect_storage_length [of "reservoir_storage s" pa] cs by simp
  show "measurements_seen s1 = 0" by (rule seen)
next
  assume h: "aligned_reachable a \<and>
    AlignedHistogramBucketExemplarReservoir_collect a pa = (a1, Inr exs')"
  then have cs: "collect_storage (reservoir_storage a) pa = (reservoir_storage a1, Inr exs')"
    by (auto simp: aligned_collect_eq prod_eq_iff)
  show "length (reservoir_storage a) = nat (r_size a)"
    using h aligned_reachable_invariant [of a] by simp
  show "length exs' \<le> length (reservoir_storage a)"
    and "\<forall>bucket \<in> set (reservoir_storage a1). \<not> b_offered bucket"
    using collect_storage_empties [OF cs] by blast+
  show "length (reservoir_storage a1) = length (reservoir_storage a)"
    using collect_storage_length [of "reservoir_storage a" pa] cs by simp
qed

theorem collect_bounded_and_resets_witness:
  "(let s0 = \<lparr>r_size = 2, reservoir_storage = [ExemplarBucket_init, ExemplarBucket_init],
              measurements_seen = 0\<rparr>;
        s = fst (SimpleFixedSizeExemplarReservoir_offer s0 5 1 None (Context None) 0);
        a0 = \<lparr>r_size = 3,
              reservoir_storage = [ExemplarBucket_init, ExemplarBucket_init, ExemplarBucket_init],
              boundaries = [10, 20]\<rparr>;
        a = fst (AlignedHistogramBucketExemplarReservoir_offer a0 15 1 None (Context None));
        e5 = \<lparr>e_filtered_attributes = None, e_value = 5, e_time_unix_nano = 1,
              e_span_id = None, e_trace_id = None\<rparr>;
        e15 = \<lparr>e_filtered_attributes = None, e_value = 15, e_time_unix_nano = 1,
               e_span_id = None, e_trace_id = None\<rparr>
    in simple_reachable s \<and>
       snd (SimpleFixedSizeExemplarReservoir_collect s (Some [])) = Inr [e5] \<and>
       length [e5] \<le> length (reservoir_storage s) \<and>
       length (reservoir_storage s) = nat (r_size s) \<and>
       measurements_seen (fst (SimpleFixedSizeExemplarReservoir_collect s (Some []))) = 0 \<and>
       aligned_reachable a \<and>
       snd (AlignedHistogramBucketExemplarReservoir_collect a (Some [])) = Inr [e15] \<and>
       length [e15] \<le> length (reservoir_storage a) \<and>
       length (reservoir_storage a) = nat (r_size a))"
proof -
  let ?sinit = "\<lparr>r_size = 2, reservoir_storage = [ExemplarBucket_init, ExemplarBucket_init],
              measurements_seen = 0\<rparr>"
  let ?s = "fst (SimpleFixedSizeExemplarReservoir_offer ?sinit 5 1 None (Context None) 0)"
  let ?ainit = "\<lparr>r_size = 3,
              reservoir_storage = [ExemplarBucket_init, ExemplarBucket_init, ExemplarBucket_init],
              boundaries = [10, 20]\<rparr>"
  let ?a = "fst (AlignedHistogramBucketExemplarReservoir_offer ?ainit 15 1 None (Context None))"
  let ?efive = "\<lparr>e_filtered_attributes = None, e_value = 5, e_time_unix_nano = 1,
              e_span_id = None, e_trace_id = None\<rparr>"
  let ?efifteen = "\<lparr>e_filtered_attributes = None, e_value = 15, e_time_unix_nano = 1,
               e_span_id = None, e_trace_id = None\<rparr>"
  have "SimpleFixedSizeExemplarReservoir_init 2 [] = Inr ?sinit" by (simp add: eval_defs)
  then have rs: "simple_reachable ?s"
    by (intro simple_reachable.simple_offer simple_reachable.simple_init)
  have "AlignedHistogramBucketExemplarReservoir_init [10, 20] [] = Inr ?ainit"
    by (simp add: eval_defs)
  then have ra: "aligned_reachable ?a"
    by (intro aligned_reachable.aligned_offer aligned_reachable.aligned_init)
  have es: "snd (SimpleFixedSizeExemplarReservoir_collect ?s (Some [])) = Inr [?efive]"
    by (simp add: eval_defs)
  have ea: "snd (AlignedHistogramBucketExemplarReservoir_collect ?a (Some [])) = Inr [?efifteen]"
    by (simp add: eval_defs)
  have hs: "SimpleFixedSizeExemplarReservoir_collect ?s (Some []) =
      (fst (SimpleFixedSizeExemplarReservoir_collect ?s (Some [])), Inr [?efive])"
    using es by (simp add: prod_eq_iff)
  have ha: "AlignedHistogramBucketExemplarReservoir_collect ?a (Some []) =
      (fst (AlignedHistogramBucketExemplarReservoir_collect ?a (Some [])), Inr [?efifteen])"
    using ea by (simp add: prod_eq_iff)
  note t = collect_bounded_and_resets [where s = ?s and pa = "Some []"
      and ?s1.0 = "fst (SimpleFixedSizeExemplarReservoir_collect ?s (Some []))" and exs = "[?efive]"
      and a = ?a
      and ?a1.0 = "fst (AlignedHistogramBucketExemplarReservoir_collect ?a (Some []))"
      and exs' = "[?efifteen]"]
  from t rs hs have cs: "length [?efive] \<le> length (reservoir_storage ?s) \<and>
       length (reservoir_storage ?s) = nat (r_size ?s) \<and>
       measurements_seen (fst (SimpleFixedSizeExemplarReservoir_collect ?s (Some []))) = 0"
    by blast
  from t ra ha have ca: "length [?efifteen] \<le> length (reservoir_storage ?a) \<and>
       length (reservoir_storage ?a) = nat (r_size ?a)"
    by blast
  from rs ra es ea cs ca show ?thesis unfolding Let_def by blast
qed

end
